theory Spec2Isabelle
  imports
    Main
    "HOL-Library.Char_ord"
    "HOL-Library.List_Lexorder"
    "HOL-Library.Product_Lexorder"
begin

section \<open>Domain model (package core)\<close>

text \<open>
  \<^verbatim>\<open>type State string\<close> with six named constants. The column \<^verbatim>\<open>current_state\<close> is
  \<^verbatim>\<open>TEXT\<close>, and the code compares states as strings, so a state is a string here and the
  six lifecycle states are the six constants.
\<close>

type_synonym State = string

definition StateCaptured :: State where "StateCaptured = ''captured''"
definition StateResting :: State where "StateResting = ''resting''"
definition StateTended :: State where "StateTended = ''tended''"
definition StateEvolved :: State where "StateEvolved = ''evolved''"
definition StateReleased :: State where "StateReleased = ''released''"
definition StateArchived :: State where "StateArchived = ''archived''"

text \<open>
  An instant is the number of nanoseconds since 1970-01-01T00:00:00Z (a \<^verbatim>\<open>time.Time\<close> in
  UTC); a \<^verbatim>\<open>time.Duration\<close> is a number of nanoseconds, and \<^verbatim>\<open>t.Add(d)\<close> is \<open>t + d\<close>.
\<close>

type_synonym Time = int
type_synonym Duration = int

text \<open>\<^verbatim>\<open>core.Thought\<close> and \<^verbatim>\<open>core.Event\<close>; a nil pointer is \<open>None\<close>.\<close>

record Thought =
  ID :: int
  Content :: string
  CurrentState :: State
  TendCounter :: int
  CreatedAt :: Time
  UpdatedAt :: Time
  LastTendedAt :: "Time option"
  EligibilityAt :: Time
  Valence :: "int option"
  Energy :: "int option"

record Event =
  EventID :: int
  ThoughtID :: int
  Kind :: string
  At :: Time
  PreviousState :: "State option"
  NextState :: "State option"
  Note :: "string option"

text \<open>The zero \<^verbatim>\<open>time.Time\<close>, 0001-01-01T00:00:00Z: the value of a field no query fills.\<close>

definition zeroTime :: Time where
  "zeroTime = - 62135596800 * 1000000000"

section \<open>Timestamps as stored text\<close>

text \<open>
  Every timestamp column holds \<^verbatim>\<open>t.UTC().Format(time.RFC3339Nano)\<close>. The layout is
  \<^verbatim>\<open>2006-01-02T15:04:05.999999999Z07:00\<close>: the date and clock of the instant in the
  proleptic Gregorian calendar, then the fraction of the second with its trailing zeros
  removed (and no decimal point at all when the fraction is zero), then \<^verbatim>\<open>Z\<close> for UTC.
\<close>

definition unixSec :: "Time \<Rightarrow> int" where
  "unixSec t = t div 1000000000"

definition Nanosecond :: "Time \<Rightarrow> int" where
  "Nanosecond t = t mod 1000000000"

text \<open>Year, month and day of an instant (days since the epoch to a civil date).\<close>

definition absDate :: "Time \<Rightarrow> int \<times> int \<times> int" where
  "absDate t =
     (let z = unixSec t div 86400 + 719468;
          era = z div 146097;
          doe = z mod 146097;
          yoe = (doe - doe div 1460 + doe div 36524 - doe div 146096) div 365;
          doy = doe - (365 * yoe + yoe div 4 - yoe div 100);
          mp = (5 * doy + 2) div 153;
          d = doy - (153 * mp + 2) div 5 + 1;
          m = (if mp < 10 then mp + 3 else mp - 9);
          y = yoe + era * 400 + (if m \<le> 2 then 1 else 0)
      in (y, m, d))"

text \<open>Hour, minute and second of an instant.\<close>

definition absClock :: "Time \<Rightarrow> int \<times> int \<times> int" where
  "absClock t =
     (let s = unixSec t mod 86400
      in (s div 3600, (s mod 3600) div 60, s mod 60))"

text \<open>The decimal digits of a non-negative number.\<close>

function decimal :: "int \<Rightarrow> string" where
  "decimal n =
     (if n < 10 then [char_of (48 + n)]
      else decimal (n div 10) @ [char_of (48 + n mod 10)])"
  by pat_completeness auto
termination
  by (relation "measure nat") auto

text \<open>\<^verbatim>\<open>appendInt(b, x, width)\<close>: a sign for a negative number, then the digits padded
  with zeros to the width.\<close>

definition appendInt :: "int \<Rightarrow> nat \<Rightarrow> string" where
  "appendInt x width =
     (let ds = decimal \<bar>x\<bar>
      in (if x < 0 then ''-'' else []) @ replicate (width - length ds) (CHR ''0'') @ ds)"

text \<open>\<^verbatim>\<open>appendNano\<close> for the layout's \<^verbatim>\<open>.999999999\<close>: nothing for a zero fraction,
  otherwise the point and nine digits with the trailing zeros cut.\<close>

definition appendNano :: "int \<Rightarrow> string" where
  "appendNano nanosec =
     (if nanosec = 0 then []
      else CHR ''.'' # rev (dropWhile (\<lambda>c. c = CHR ''0'') (rev (appendInt nanosec 9))))"

definition Format :: "Time \<Rightarrow> string" where
  "Format t =
     (case absDate t of (y, m, d) \<Rightarrow>
      case absClock t of (hh, mm, ss) \<Rightarrow>
        appendInt y 4 @ ''-'' @ appendInt m 2 @ ''-'' @ appendInt d 2 @ ''T'' @
        appendInt hh 2 @ '':'' @ appendInt mm 2 @ '':'' @ appendInt ss 2 @
        appendNano (Nanosecond t) @ ''Z'')"

text \<open>
  SQLite compares \<^verbatim>\<open>TEXT\<close> values byte by byte (the \<^verbatim>\<open>BINARY\<close> collation), a proper
  prefix before its extensions: the order \<open>\<le>\<close> of \<^typ>\<open>string\<close> used below.
  \<^verbatim>\<open>eligibility_at <= ?\<close> with the formatted current time as its argument:
\<close>

definition eligibleText :: "Time \<Rightarrow> Time \<Rightarrow> bool" where
  "eligibleText eligibilityAt now = (Format eligibilityAt \<le> Format now)"

section \<open>Whitespace\<close>

text \<open>
  \<^verbatim>\<open>strings.TrimSpace(s) == ""\<close>: the string is made of white space only. A string is
  its UTF-8 bytes; the white space of \<^verbatim>\<open>unicode.IsSpace\<close> is the six ASCII characters,
  U+0085, U+00A0, U+1680, U+2000 to U+200A, U+2028, U+2029, U+202F, U+205F and U+3000.
\<close>

definition spaceRunes :: "string list" where
  "spaceRunes =
     [[CHR 0x09], [CHR 0x0A], [CHR 0x0B], [CHR 0x0C], [CHR 0x0D], [CHR 0x20],
      [CHR 0xC2, CHR 0x85], [CHR 0xC2, CHR 0xA0],
      [CHR 0xE1, CHR 0x9A, CHR 0x80],
      [CHR 0xE2, CHR 0x80, CHR 0x80], [CHR 0xE2, CHR 0x80, CHR 0x81],
      [CHR 0xE2, CHR 0x80, CHR 0x82], [CHR 0xE2, CHR 0x80, CHR 0x83],
      [CHR 0xE2, CHR 0x80, CHR 0x84], [CHR 0xE2, CHR 0x80, CHR 0x85],
      [CHR 0xE2, CHR 0x80, CHR 0x86], [CHR 0xE2, CHR 0x80, CHR 0x87],
      [CHR 0xE2, CHR 0x80, CHR 0x88], [CHR 0xE2, CHR 0x80, CHR 0x89],
      [CHR 0xE2, CHR 0x80, CHR 0x8A],
      [CHR 0xE2, CHR 0x80, CHR 0xA8], [CHR 0xE2, CHR 0x80, CHR 0xA9],
      [CHR 0xE2, CHR 0x80, CHR 0xAF],
      [CHR 0xE2, CHR 0x81, CHR 0x9F],
      [CHR 0xE3, CHR 0x80, CHR 0x80]]"

text \<open>The bytes of the white-space rune a string starts with, if it starts with one.\<close>

definition leadingSpace :: "string \<Rightarrow> string option" where
  "leadingSpace s = find (\<lambda>p. p \<noteq> [] \<and> take (length p) s = p) spaceRunes"

function blank :: "string \<Rightarrow> bool" where
  "blank s =
     (if s = [] then True
      else case leadingSpace s of
             None \<Rightarrow> False
           | Some p \<Rightarrow> blank (drop (length p) s))"
  by pat_completeness auto
termination
  by (relation "measure length") (auto simp: leadingSpace_def find_Some_iff)

section \<open>The store\<close>

text \<open>
  The SQLite database behind \<^verbatim>\<open>Store\<close>: the rows of \<^verbatim>\<open>thoughts\<close> and \<^verbatim>\<open>events\<close>,
  and the \<^verbatim>\<open>sqlite_sequence\<close> counters of the two \<^verbatim>\<open>AUTOINCREMENT\<close>
  tables (0 before the first insert). A timestamp column holds the instant whose
  RFC 3339 text is stored; wherever SQL compares or orders the column as text, the model
  compares \<^const>\<open>Format\<close> of it. The receiver is a \<^verbatim>\<open>Store\<close> built by \<^verbatim>\<open>New\<close>, so it
  and its handle are not nil. A statement fails only where a constraint of the schema
  fails: input and output errors of the database file are not modelled, integers are
  unbounded (a 64-bit counter or rowid is taken to stay in its range), and instants lie
  in the years 0000 to 9999, where \<^verbatim>\<open>time.Parse\<close> reads back what \<^verbatim>\<open>Format\<close> wrote.
\<close>

record Store =
  thoughts :: "Thought list"
  events :: "Event list"
  thoughts_seq :: int
  events_seq :: int

datatype error =
    InvalidThoughtID
  | ContentEmpty
  | NotFound
  | TerminalState State
  | NotTended State
  | InvalidNextState State
  | NoRowsUpdated int
  | LimitNotPositive
  | OffsetNegative
  | UniqueConstraint
  | ForeignKeyCheckFailed

text \<open>The rowid an \<^verbatim>\<open>AUTOINCREMENT\<close> table gives a new row: one more than the largest
  rowid the table holds or has ever held.\<close>

definition nextRowid :: "int \<Rightarrow> int list \<Rightarrow> int" where
  "nextRowid seq ids =
     max (case ids of [] \<Rightarrow> 1 | i # is \<Rightarrow> fold max is i + 1) (seq + 1)"

text \<open>\<^verbatim>\<open>SELECT ... FROM thoughts WHERE id = ?\<close> read with \<^verbatim>\<open>QueryRow\<close>.\<close>

definition selectThought :: "Store \<Rightarrow> int \<Rightarrow> Thought option" where
  "selectThought s i = find (\<lambda>t. ID t = i) (thoughts s)"

text \<open>\<^verbatim>\<open>UPDATE thoughts SET ... WHERE id = ?\<close> and the number of rows it changed.\<close>

definition updateThoughts :: "(Thought \<Rightarrow> Thought) \<Rightarrow> int \<Rightarrow> Store \<Rightarrow> Store" where
  "updateThoughts f i s = s\<lparr>thoughts := map (\<lambda>t. if ID t = i then f t else t) (thoughts s)\<rparr>"

definition rowsAffected :: "Store \<Rightarrow> int \<Rightarrow> nat" where
  "rowsAffected s i = length (filter (\<lambda>t. ID t = i) (thoughts s))"

text \<open>\<^verbatim>\<open>INSERT INTO events (thought_id, kind, at, previous_state, next_state, note)\<close>.\<close>

definition insertEvent ::
  "int \<Rightarrow> string \<Rightarrow> Time \<Rightarrow> State option \<Rightarrow> State option \<Rightarrow> string option \<Rightarrow> Store \<Rightarrow> Store" where
  "insertEvent i kind at' prev nxt note s =
     (let eid = nextRowid (events_seq s) (map EventID (events s))
      in s\<lparr>events := events s @
              [\<lparr>EventID = eid, ThoughtID = i, Kind = kind, At = at',
                PreviousState = prev, NextState = nxt, Note = note\<rparr>],
            events_seq := eid\<rparr>)"

text \<open>\<^verbatim>\<open>tx, _ := s.db.Begin(); defer tx.Rollback(); ...; tx.Commit()\<close>: the body's changes
  are kept when it reaches the commit and dropped when it returns an error before.\<close>

definition transaction :: "(Store \<Rightarrow> error + Store) \<Rightarrow> Store \<Rightarrow> error option \<times> Store" where
  "transaction body s = (case body s of Inl e \<Rightarrow> (Some e, s) | Inr s' \<Rightarrow> (None, s'))"

text \<open>A note is stored when it is given and not blank, \<^verbatim>\<open>NULL\<close> otherwise.\<close>

definition noteValue :: "string option \<Rightarrow> string option" where
  "noteValue note = (case note of None \<Rightarrow> None | Some n \<Rightarrow> if blank n then None else Some n)"

section \<open>Operations of the store (store.go)\<close>

text \<open>\<^verbatim>\<open>CreateThought\<close>; \<open>now\<close> is the reading of \<^verbatim>\<open>time.Now()\<close> and \<open>settle\<close> the value
  of \<^verbatim>\<open>core.SettleDuration\<close>.\<close>

definition CreateThought :: "Store \<Rightarrow> Time \<Rightarrow> Duration \<Rightarrow> string \<Rightarrow> (error + int) \<times> Store" where
  "CreateThought s now settle content =
     (if content = [] then (Inl ContentEmpty, s)
      else
        let i = nextRowid (thoughts_seq s) (map ID (thoughts s));
            row = \<lparr>ID = i, Content = content, CurrentState = StateCaptured, TendCounter = 0,
                   CreatedAt = now, UpdatedAt = now, LastTendedAt = None,
                   EligibilityAt = now + settle, Valence = None, Energy = None\<rparr>
        in (Inr i, s\<lparr>thoughts := thoughts s @ [row], thoughts_seq := i\<rparr>))"

text \<open>The events of a thought, \<^verbatim>\<open>ORDER BY at ASC, id ASC\<close>.\<close>

definition selectEvents :: "Store \<Rightarrow> int \<Rightarrow> Event list" where
  "selectEvents s i =
     sort_key (\<lambda>e. (Format (At e), EventID e)) (filter (\<lambda>e. ThoughtID e = i) (events s))"

text \<open>\<^verbatim>\<open>GetThought\<close>: the row with the id, and its events.\<close>

definition GetThought :: "Store \<Rightarrow> int \<Rightarrow> error + Thought \<times> Event list" where
  "GetThought s i =
     (if i \<le> 0 then Inl InvalidThoughtID
      else case selectThought s i of
             None \<Rightarrow> Inl NotFound
           | Some t \<Rightarrow> Inr (t, selectEvents s i))"

text \<open>\<^verbatim>\<open>GetTendThought\<close>: the same, for a thought that is captured or resting and whose
  \<^verbatim>\<open>eligibility_at\<close> text is at most the text of the current time.\<close>

definition tendReady :: "Time \<Rightarrow> Thought \<Rightarrow> bool" where
  "tendReady now t =
     ((CurrentState t = StateCaptured \<or> CurrentState t = StateResting) \<and>
      eligibleText (EligibilityAt t) now)"

definition GetTendThought :: "Store \<Rightarrow> Time \<Rightarrow> int \<Rightarrow> error + Thought \<times> Event list" where
  "GetTendThought s now i =
     (if i \<le> 0 then Inl InvalidThoughtID
      else case find (\<lambda>t. ID t = i \<and> tendReady now t) (thoughts s) of
             None \<Rightarrow> Inl NotFound
           | Some t \<Rightarrow> Inr (t, selectEvents s i))"

text \<open>\<^verbatim>\<open>CountTendReady\<close>.\<close>

definition CountTendReady :: "Store \<Rightarrow> Time \<Rightarrow> int" where
  "CountTendReady s now = int (length (filter (tendReady now) (thoughts s)))"

text \<open>\<^verbatim>\<open>UpdateThoughtContent\<close>: one \<^verbatim>\<open>UPDATE\<close>, run on the handle itself.\<close>

definition UpdateThoughtContent :: "Store \<Rightarrow> Time \<Rightarrow> int \<Rightarrow> string \<Rightarrow> error option \<times> Store" where
  "UpdateThoughtContent s now i content =
     (if i \<le> 0 then (Some InvalidThoughtID, s)
      else if blank content then (Some ContentEmpty, s)
      else
        let s' = updateThoughts (\<lambda>t. t\<lparr>Content := content, UpdatedAt := now\<rparr>) i s
        in if rowsAffected s i = 0 then (Some (NoRowsUpdated i), s') else (None, s'))"

text \<open>\<^verbatim>\<open>MarkThoughtTended\<close>.\<close>

definition MarkThoughtTended ::
  "Store \<Rightarrow> Time \<Rightarrow> int \<Rightarrow> string option \<Rightarrow> error option \<times> Store" where
  "MarkThoughtTended s now i note =
     (if i \<le> 0 then (Some InvalidThoughtID, s)
      else transaction (\<lambda>tx.
        case selectThought tx i of
          None \<Rightarrow> Inl NotFound
        | Some t \<Rightarrow>
            let prev = CurrentState t in
            if prev = StateEvolved \<or> prev = StateReleased \<or> prev = StateArchived
            then Inl (TerminalState prev)
            else
              let next = StateTended;
                  tx1 = updateThoughts
                          (\<lambda>t. t\<lparr>CurrentState := next, TendCounter := TendCounter t + 1,
                                 LastTendedAt := Some now, UpdatedAt := now\<rparr>) i tx
              in Inr (insertEvent i ''state_change'' now (Some prev) (Some next)
                        (noteValue note) tx1)) s)"

text \<open>\<^verbatim>\<open>TransitionPostTendResolutionStrict\<close>.\<close>

definition TransitionPostTendResolutionStrict ::
  "Store \<Rightarrow> Time \<Rightarrow> Duration \<Rightarrow> int \<Rightarrow> State \<Rightarrow> string option \<Rightarrow> error option \<times> Store" where
  "TransitionPostTendResolutionStrict s now settle i next note =
     (if i \<le> 0 then (Some InvalidThoughtID, s)
      else if next \<noteq> StateResting \<and> next \<noteq> StateEvolved \<and> next \<noteq> StateReleased \<and>
              next \<noteq> StateArchived
      then (Some (InvalidNextState next), s)
      else transaction (\<lambda>tx.
        case selectThought tx i of
          None \<Rightarrow> Inl NotFound
        | Some t \<Rightarrow>
            let prev = CurrentState t in
            if prev \<noteq> StateTended then Inl (NotTended prev)
            else
              let tx1 =
                    (if next = StateResting
                     then updateThoughts
                            (\<lambda>t. t\<lparr>CurrentState := next, UpdatedAt := now,
                                   EligibilityAt := now + settle\<rparr>) i tx
                     else updateThoughts
                            (\<lambda>t. t\<lparr>CurrentState := next, UpdatedAt := now\<rparr>) i tx)
              in Inr (insertEvent i ''state_change'' now (Some prev) (Some next)
                        (noteValue note) tx1)) s)"

text \<open>\<^verbatim>\<open>ToEvolve\<close>.\<close>

definition ToEvolve :: "Store \<Rightarrow> Time \<Rightarrow> int \<Rightarrow> error option \<times> Store" where
  "ToEvolve s now i =
     (if i \<le> 0 then (Some InvalidThoughtID, s)
      else transaction (\<lambda>tx.
        case selectThought tx i of
          None \<Rightarrow> Inl NotFound
        | Some t \<Rightarrow>
            let prev = CurrentState t in
            if prev = StateEvolved then Inl (TerminalState prev)
            else
              let state = StateEvolved;
                  tx1 = updateThoughts (\<lambda>t. t\<lparr>CurrentState := state, UpdatedAt := now\<rparr>) i tx
              in if rowsAffected tx i = 0 then Inl NotFound
                 else Inr (insertEvent i ''state_change'' now (Some prev) (Some state)
                             None tx1)) s)"

text \<open>\<^verbatim>\<open>ListThoughtsByPagination\<close>: a page of the thoughts that are not archived,
  \<^verbatim>\<open>ORDER BY updated_at ASC, id ASC LIMIT ? OFFSET ?\<close>. The query reads five columns; the
  other fields of each \<^verbatim>\<open>core.Thought\<close> keep their zero values.\<close>

definition listRow :: "Thought \<Rightarrow> Thought" where
  "listRow t =
     \<lparr>ID = ID t, Content = Content t, CurrentState = CurrentState t,
      TendCounter = TendCounter t, CreatedAt = zeroTime, UpdatedAt = UpdatedAt t,
      LastTendedAt = None, EligibilityAt = zeroTime, Valence = None, Energy = None\<rparr>"

definition page :: "int \<Rightarrow> int \<Rightarrow> 'a list \<Rightarrow> 'a list" where
  "page limit offset rows = take (nat limit) (drop (nat offset) rows)"

definition ListThoughtsByPagination :: "Store \<Rightarrow> int \<Rightarrow> int \<Rightarrow> error + Thought list" where
  "ListThoughtsByPagination s limit offset =
     (if limit \<le> 0 then Inl LimitNotPositive
      else if offset < 0 then Inl OffsetNegative
      else Inr (map listRow
             (page limit offset
                (sort_key (\<lambda>t. (Format (UpdatedAt t), ID t))
                   (filter (\<lambda>t. CurrentState t \<noteq> ''archived'') (thoughts s))))))"

text \<open>\<^verbatim>\<open>ReleaseThought\<close>: the events of the thought are deleted, then the thought.\<close>

definition ReleaseThought :: "Store \<Rightarrow> int \<Rightarrow> error option \<times> Store" where
  "ReleaseThought s i =
     (if i \<le> 0 then (Some InvalidThoughtID, s)
      else transaction (\<lambda>tx.
        let tx1 = tx\<lparr>events := filter (\<lambda>e. ThoughtID e \<noteq> i) (events tx)\<rparr>;
            tx2 = tx1\<lparr>thoughts := filter (\<lambda>t. ID t \<noteq> i) (thoughts tx1)\<rparr>
        in if rowsAffected tx1 i = 0 then Inl NotFound else Inr tx2) s)"

text \<open>\<^verbatim>\<open>PRAGMA foreign_key_check\<close>: the events whose \<^verbatim>\<open>thought_id\<close> is the id of no
  thought.\<close>

definition foreign_key_check :: "Store \<Rightarrow> Event list" where
  "foreign_key_check s =
     filter (\<lambda>e. \<not> list_ex (\<lambda>t. ID t = ThoughtID e) (thoughts s)) (events s)"

text \<open>\<^verbatim>\<open>UPDATE thoughts SET id = ? WHERE id = ?\<close>: \<^verbatim>\<open>id\<close> is the primary key, so the
  statement fails when it would give a row the id of another row.\<close>

definition setThoughtID :: "int \<Rightarrow> int \<Rightarrow> Thought list \<Rightarrow> error + Thought list" where
  "setThoughtID new old rows =
     (if \<not> list_ex (\<lambda>t. ID t = old) rows then Inr rows
      else if new \<noteq> old \<and> list_ex (\<lambda>t. ID t = new) rows then Inl UniqueConstraint
      else Inr (map (\<lambda>t. if ID t = old then t\<lparr>ID := new\<rparr> else t) rows))"

text \<open>\<^verbatim>\<open>UPDATE events SET thought_id = ? WHERE thought_id = ?\<close>.\<close>

definition setEventThoughtID :: "int \<Rightarrow> int \<Rightarrow> Event list \<Rightarrow> Event list" where
  "setEventThoughtID new old rows =
     map (\<lambda>e. if ThoughtID e = old then e\<lparr>ThoughtID := new\<rparr> else e) rows"

text \<open>The first loop over \<^verbatim>\<open>maps\<close>: every thought moves to the negative of its new id.\<close>

fun tmpUpdateThoughts :: "(int \<times> int) list \<Rightarrow> Thought list \<Rightarrow> error + Thought list" where
  "tmpUpdateThoughts [] rows = Inr rows"
| "tmpUpdateThoughts ((oldID, newID) # ms) rows =
     (case setThoughtID (- newID) oldID rows of
        Inl e \<Rightarrow> Inl e
      | Inr rows' \<Rightarrow> tmpUpdateThoughts ms rows')"

text \<open>The second loop: the events follow.\<close>

fun tmpUpdateEvents :: "(int \<times> int) list \<Rightarrow> Event list \<Rightarrow> Event list" where
  "tmpUpdateEvents [] rows = rows"
| "tmpUpdateEvents ((oldID, newID) # ms) rows =
     tmpUpdateEvents ms (setEventThoughtID (- newID) oldID rows)"

text \<open>\<^verbatim>\<open>UPDATE thoughts SET id = -id WHERE id < 0\<close>. The ids of the rows are distinct
  before the statement, so it meets an id that is taken exactly when two rows end with
  the same id.\<close>

definition flipThoughts :: "Thought list \<Rightarrow> error + Thought list" where
  "flipThoughts rows =
     (let rows' = map (\<lambda>t. if ID t < 0 then t\<lparr>ID := - ID t\<rparr> else t) rows
      in if distinct (map ID rows') then Inr rows' else Inl UniqueConstraint)"

text \<open>\<^verbatim>\<open>UPDATE events SET thought_id = -thought_id WHERE thought_id < 0\<close>.\<close>

definition flipEvents :: "Event list \<Rightarrow> Event list" where
  "flipEvents rows = map (\<lambda>e. if ThoughtID e < 0 then e\<lparr>ThoughtID := - ThoughtID e\<rparr> else e) rows"

text \<open>\<^verbatim>\<open>SELECT COALESCE(MAX(id), 0) FROM thoughts\<close>.\<close>

definition maxThoughtID :: "Thought list \<Rightarrow> int" where
  "maxThoughtID rows = (case map ID rows of [] \<Rightarrow> 0 | i # is \<Rightarrow> fold max is i)"

text \<open>\<^verbatim>\<open>maps\<close>: the ids in ascending order, numbered from 1.\<close>

definition idMaps :: "Thought list \<Rightarrow> (int \<times> int) list" where
  "idMaps rows = zip (sort (map ID rows)) (map int [1 ..< Suc (length rows)])"

text \<open>\<^verbatim>\<open>ReindexThoughtIDs\<close> of store.go. Foreign keys are checked when the transaction
  ends (\<^verbatim>\<open>PRAGMA defer_foreign_keys = ON\<close>), which the explicit check before the commit
  covers.\<close>

definition ReindexThoughtIDs :: "Store \<Rightarrow> error option \<times> Store" where
  "ReindexThoughtIDs s =
     transaction (\<lambda>tx.
       let maps = idMaps (thoughts tx) in
       if maps = [] then Inr tx
       else
         case tmpUpdateThoughts maps (thoughts tx) of
           Inl e \<Rightarrow> Inl e
         | Inr ths \<Rightarrow>
             let evs = tmpUpdateEvents maps (events tx) in
             case flipThoughts ths of
               Inl e \<Rightarrow> Inl e
             | Inr ths' \<Rightarrow>
                 let tx1 = tx\<lparr>thoughts := ths', events := flipEvents evs,
                              thoughts_seq := maxThoughtID ths'\<rparr>
                 in if foreign_key_check tx1 \<noteq> [] then Inl ForeignKeyCheckFailed
                    else Inr tx1) s"

section \<open>The other variant of store.go (part 001)\<close>

text \<open>
  The second copy of the store (the file \<^verbatim>\<open>part_001\<close>) differs from store.go in three
  functions: the listing, the reindexing and the counter's persistence. They are embedded
  under the same names with the suffix \<open>_part001\<close>; every other function of the copy is
  the one of store.go.
\<close>

text \<open>\<^verbatim>\<open>ListThoughtsByPagination\<close> without the \<^verbatim>\<open>WHERE\<close> clause.\<close>

definition ListThoughtsByPagination_part001 ::
  "Store \<Rightarrow> int \<Rightarrow> int \<Rightarrow> error + Thought list" where
  "ListThoughtsByPagination_part001 s limit offset =
     (if limit \<le> 0 then Inl LimitNotPositive
      else if offset < 0 then Inl OffsetNegative
      else Inr (map listRow
             (page limit offset
                (sort_key (\<lambda>t. (Format (UpdatedAt t), ID t)) (thoughts s)))))"

text \<open>\<^verbatim>\<open>ReindexThoughtIDs\<close> by rebuilding the two tables: \<^verbatim>\<open>thought_id_map\<close> numbers the
  ids in ascending order (\<^verbatim>\<open>old_id\<close> is its primary key), \<^verbatim>\<open>thoughts_new\<close> and
  \<^verbatim>\<open>events_new\<close> are filled through a join with it, and they replace the old tables.
  The sequences of the new tables are the largest ids inserted into them.\<close>

definition joinThoughts :: "(int \<times> int) list \<Rightarrow> Thought list \<Rightarrow> Thought list" where
  "joinThoughts m rows =
     concat (map (\<lambda>(oldID, newID). map (\<lambda>t. t\<lparr>ID := newID\<rparr>) (filter (\<lambda>t. ID t = oldID) rows)) m)"

definition joinEvents :: "(int \<times> int) list \<Rightarrow> Event list \<Rightarrow> Event list" where
  "joinEvents m rows =
     sort_key EventID
       (List.map_filter
          (\<lambda>e. case map_of m (ThoughtID e) of None \<Rightarrow> None | Some newID \<Rightarrow> Some (e\<lparr>ThoughtID := newID\<rparr>))
          rows)"

definition ReindexThoughtIDs_part001 :: "Store \<Rightarrow> error option \<times> Store" where
  "ReindexThoughtIDs_part001 s =
     transaction (\<lambda>tx.
       let m = idMaps (thoughts tx) in
       if \<not> distinct (map fst m) then Inl UniqueConstraint
       else
         let ths = joinThoughts m (thoughts tx);
             evs = joinEvents m (events tx)
         in Inr (tx\<lparr>thoughts := ths, events := evs,
                    thoughts_seq := maxThoughtID ths,
                    events_seq := (case map EventID evs of [] \<Rightarrow> 0 | i # is \<Rightarrow> fold max is i)\<rparr>)) s"

section \<open>The tend-readiness counter\<close>

text \<open>
  What reading the persisted count finds: text that is no number, or a number.
\<close>

datatype Stored = Garbled | Count int

text \<open>
  \<^verbatim>\<open>DidCountTendChange\<close> of store.go keeps the count in the file
  \<^verbatim>\<open>peony_last_tendReady_count\<close> of the temporary directory. The file is \<open>None\<close> when
  \<^verbatim>\<open>os.Open\<close> fails, and otherwise what \<^verbatim>\<open>fmt.Fscan\<close> reads from it; \<open>canCreate\<close> tells
  whether \<^verbatim>\<open>os.Create\<close> succeeds. The function writes the count with \<^verbatim>\<open>%d\<close>, which
  \<^verbatim>\<open>Fscan\<close> reads back.
\<close>

definition DidCountTendChange :: "bool \<Rightarrow> Stored option \<Rightarrow> int \<Rightarrow> bool \<times> Stored option" where
  "DidCountTendChange canCreate file n =
     (case file of
        None \<Rightarrow> if \<not> canCreate then (True, None) else (True, Some (Count n))
      | Some Garbled \<Rightarrow> (True, if canCreate then Some (Count n) else file)
      | Some (Count prev) \<Rightarrow>
          if prev = n then (False, file)
          else (True, if canCreate then Some (Count n) else file))"

text \<open>
  \<^verbatim>\<open>DidCountTendChange\<close> of part 001 keeps the count in the row of \<^verbatim>\<open>app_state\<close> with the
  key \<^verbatim>\<open>last_tend_ready_count\<close>: \<open>None\<close> when there is no such row, otherwise what
  \<^verbatim>\<open>strconv.Atoi\<close> makes of its value, and its \<^verbatim>\<open>updated_at\<close>. \<^verbatim>\<open>setAppStateInt\<close>
  inserts the row or overwrites both columns.
\<close>

definition setAppStateInt :: "Time \<Rightarrow> int \<Rightarrow> (Stored \<times> Time) option" where
  "setAppStateInt now v = Some (Count v, now)"

definition DidCountTendChange_part001 ::
  "(Stored \<times> Time) option \<Rightarrow> Time \<Rightarrow> int \<Rightarrow> bool \<times> (Stored \<times> Time) option" where
  "DidCountTendChange_part001 row now newCount =
     (if newCount < 0 then (False, row)
      else case row of
        None \<Rightarrow> (True, setAppStateInt now newCount)
      | Some (Garbled, _) \<Rightarrow> (True, setAppStateInt now newCount)
      | Some (Count oldCount, _) \<Rightarrow>
          if oldCount = newCount then (False, row)
          else (True, setAppStateInt now newCount))"

section \<open>The schema migrator (migrate.go)\<close>

text \<open>
  What the migrator sees of a database: the catalog of its tables and indexes by name
  (a table with its columns, an index with its table and columns) and the rows of
  \<^verbatim>\<open>schema_migrations\<close>.
\<close>

datatype SchemaObject = Table "string list" | Index string "string list"

record Database =
  catalog :: "(string \<times> SchemaObject) list"
  schema_migrations :: "int list"

datatype migrate_error =
    CreateSchemaMigrations
  | ReadCurrentVersion
  | CreateThoughtsTable
  | CreateEventsTable
  | CreateAppStateTable
  | CreateIdxThoughtsStateEligibility
  | CreateIdxEventsThoughtIdAt
  | RecordSchemaVersion

definition SchemaVersion :: int where
  "SchemaVersion = 2"

text \<open>\<^verbatim>\<open>CREATE TABLE IF NOT EXISTS\<close>: nothing when a table of the name exists, an error
  when an index has the name.\<close>

definition createTable ::
  "string \<Rightarrow> string list \<Rightarrow> (string \<times> SchemaObject) list \<Rightarrow> (string \<times> SchemaObject) list option" where
  "createTable name cols cat =
     (case map_of cat name of
        Some (Table _) \<Rightarrow> Some cat
      | Some (Index _ _) \<Rightarrow> None
      | None \<Rightarrow> Some (cat @ [(name, Table cols)]))"

text \<open>\<^verbatim>\<open>CREATE INDEX IF NOT EXISTS\<close>: nothing when an index of the name exists, an error
  when a table has the name, or when the indexed table or one of the columns is missing.\<close>

definition createIndex ::
  "string \<Rightarrow> string \<Rightarrow> string list \<Rightarrow> (string \<times> SchemaObject) list \<Rightarrow>
   (string \<times> SchemaObject) list option" where
  "createIndex name tbl cols cat =
     (case map_of cat name of
        Some (Index _ _) \<Rightarrow> Some cat
      | Some (Table _) \<Rightarrow> None
      | None \<Rightarrow>
          (case map_of cat tbl of
             Some (Table tcols) \<Rightarrow>
               if list_all (\<lambda>c. c \<in> set tcols) cols
               then Some (cat @ [(name, Index tbl cols)]) else None
           | _ \<Rightarrow> None))"

text \<open>\<^verbatim>\<open>SELECT COALESCE(MAX(version), 0) FROM schema_migrations\<close>.\<close>

definition currentVersion :: "Database \<Rightarrow> int" where
  "currentVersion db = (case schema_migrations db of [] \<Rightarrow> 0 | v # vs \<Rightarrow> fold max vs v)"

definition hasVersionColumn :: "(string \<times> SchemaObject) list \<Rightarrow> bool" where
  "hasVersionColumn cat =
     (case map_of cat ''schema_migrations'' of
        Some (Table cols) \<Rightarrow> ''version'' \<in> set cols
      | _ \<Rightarrow> False)"

definition thoughtsColumns :: "string list" where
  "thoughtsColumns =
     [''id'', ''content'', ''current_state'', ''tend_counter'', ''created_at'', ''updated_at'',
      ''last_tended_at'', ''eligibility_at'', ''valence'', ''energy'']"

definition eventsColumns :: "string list" where
  "eventsColumns =
     [''id'', ''thought_id'', ''kind'', ''at'', ''previous_state'', ''next_state'', ''note'']"

definition appStateColumns :: "string list" where
  "appStateColumns = [''key'', ''value'', ''updated_at'']"

text \<open>The statements of the migration's transaction, in their order.\<close>

definition migrateSteps :: "Database \<Rightarrow> migrate_error + Database" where
  "migrateSteps db =
     (case createTable ''thoughts'' thoughtsColumns (catalog db) of
        None \<Rightarrow> Inl CreateThoughtsTable
      | Some c1 \<Rightarrow>
     (case createTable ''events'' eventsColumns c1 of
        None \<Rightarrow> Inl CreateEventsTable
      | Some c2 \<Rightarrow>
     (case createTable ''app_state'' appStateColumns c2 of
        None \<Rightarrow> Inl CreateAppStateTable
      | Some c3 \<Rightarrow>
     (case createIndex ''idx_thoughts_state_eligibility'' ''thoughts''
             [''current_state'', ''eligibility_at''] c3 of
        None \<Rightarrow> Inl CreateIdxThoughtsStateEligibility
      | Some c4 \<Rightarrow>
     (case createIndex ''idx_events_thought_id_at'' ''events'' [''thought_id'', ''at''] c4 of
        None \<Rightarrow> Inl CreateIdxEventsThoughtIdAt
      | Some c5 \<Rightarrow>
          if SchemaVersion \<in> set (schema_migrations db) then Inl RecordSchemaVersion
          else Inr (db\<lparr>catalog := c5,
                      schema_migrations := schema_migrations db @ [SchemaVersion]\<rparr>))))))"

text \<open>\<^verbatim>\<open>Migrate\<close>: \<^verbatim>\<open>schema_migrations\<close> is created on the handle, before the
  transaction begins, and stays when the transaction is rolled back.\<close>

definition Migrate :: "Database \<Rightarrow> migrate_error option \<times> Database" where
  "Migrate db =
     (case createTable ''schema_migrations'' [''version''] (catalog db) of
        None \<Rightarrow> (Some CreateSchemaMigrations, db)
      | Some c0 \<Rightarrow>
          let db0 = db\<lparr>catalog := c0\<rparr> in
          if \<not> hasVersionColumn c0 then (Some ReadCurrentVersion, db0)
          else if currentVersion db0 \<ge> SchemaVersion then (None, db0)
          else (case migrateSteps db0 of
                  Inl e \<Rightarrow> (Some e, db0)
                | Inr db1 \<Rightarrow> (None, db1)))"

section \<open>Example stores\<close>

text \<open>Concrete instants, thoughts and stores on which the theorems below are evaluated.
  \<open>tickA\<close> is 2023-11-14T22:13:20Z.\<close>

definition second :: Duration where "second = 1000000000"
definition hour :: Duration where "hour = 3600 * 1000000000"

definition tickA :: Time where "tickA = 1700000000 * 1000000000"
definition tickB :: Time where "tickB = 1700000000 * 1000000000 + 500000000"
definition tickC :: Time where "tickC = 1700000000 * 1000000000 + 123450000"
definition tickD :: Time where "tickD = 1700000000 * 1000000000 + 123451000"

definition exThought :: "State \<Rightarrow> Time \<Rightarrow> Thought" where
  "exThought st el =
     \<lparr>ID = 1, Content = ''buy milk'', CurrentState = st, TendCounter = 0,
      CreatedAt = tickA, UpdatedAt = tickA, LastTendedAt = None, EligibilityAt = el,
      Valence = None, Energy = None\<rparr>"

definition exStore :: "State \<Rightarrow> Time \<Rightarrow> Store" where
  "exStore st el =
     \<lparr>thoughts = [exThought st el], events = [], thoughts_seq = 1, events_seq = 0\<rparr>"

definition emptyStore :: Store where
  "emptyStore = \<lparr>thoughts = [], events = [], thoughts_seq = 0, events_seq = 0\<rparr>"

definition exEvent :: "int \<Rightarrow> int \<Rightarrow> Event" where
  "exEvent eid i =
     \<lparr>EventID = eid, ThoughtID = i, Kind = ''captured'', At = tickA,
      PreviousState = None, NextState = Some StateCaptured, Note = None\<rparr>"

definition exStore4 :: Store where
  "exStore4 =
     \<lparr>thoughts = [(exThought StateCaptured tickA)\<lparr>ID := 1\<rparr>,
                  (exThought StateResting tickA)\<lparr>ID := 2\<rparr>,
                  (exThought StateTended tickA)\<lparr>ID := 3\<rparr>,
                  (exThought StateArchived tickA)\<lparr>ID := 4\<rparr>],
      events = [exEvent 1 1, exEvent 2 2, exEvent 3 3, exEvent 4 4, exEvent 5 4],
      thoughts_seq = 4, events_seq = 5\<rparr>"

definition exStoreTwoEvents :: Store where
  "exStoreTwoEvents =
     \<lparr>thoughts = [exThought StateTended tickA],
      events = [(exEvent 1 1)\<lparr>At := tickA\<rparr>, (exEvent 2 1)\<lparr>At := tickB\<rparr>],
      thoughts_seq = 1, events_seq = 2\<rparr>"

definition exStoreMixed :: Store where
  "exStoreMixed =
     \<lparr>thoughts = [(exThought StateArchived tickA)\<lparr>ID := 1\<rparr>,
                  (exThought StateCaptured tickA)\<lparr>ID := 2\<rparr>],
      events = [], thoughts_seq = 2, events_seq = 0\<rparr>"

definition emptyDatabase :: Database where
  "emptyDatabase = \<lparr>catalog = [], schema_migrations = []\<rparr>"

text \<open>What the reindexing of the ids 1, 2, 4 does to an event: the events of thought 4
  move to thought 3.\<close>

definition moveEvent :: "Event \<Rightarrow> Event" where
  "moveEvent e = (if ThoughtID e = 4 then e\<lparr>ThoughtID := 3\<rparr> else e)"

section \<open>Rows and lookups\<close>

lemma find_update_same:
  assumes "\<And>t. ID (f t) = ID t"
  shows "find (\<lambda>t. ID t = i) (map (\<lambda>t. if ID t = i then f t else t) xs)
         = map_option f (find (\<lambda>t. ID t = i) xs)"
  using assms by (induction xs) auto

lemma selectThought_updateThoughts:
  assumes "\<And>t. ID (f t) = ID t"
  shows "selectThought (updateThoughts f i s) i = map_option f (selectThought s i)"
  using find_update_same [OF assms] by (simp add: selectThought_def updateThoughts_def)

lemma selectThought_insertEvent [simp]:
  "selectThought (insertEvent i k a p n nt s) j = selectThought s j"
  by (simp add: selectThought_def insertEvent_def Let_def)

lemma thoughts_insertEvent [simp]:
  "thoughts (insertEvent i k a p n nt s) = thoughts s"
  by (simp add: insertEvent_def Let_def)

lemma events_updateThoughts [simp]:
  "events (updateThoughts f i s) = events s"
  by (simp add: updateThoughts_def)

lemma find_Some_holds:
  "find P xs = Some x \<Longrightarrow> P x \<and> x \<in> set xs"
  by (induction xs) (auto split: if_splits)

lemma rowsAffected_pos:
  "selectThought s i = Some t \<Longrightarrow> rowsAffected s i \<noteq> 0"
  by (auto simp: selectThought_def rowsAffected_def filter_empty_conv dest: find_Some_holds)

lemma rowsAffected_zero:
  "selectThought s i = None \<Longrightarrow> rowsAffected s i = 0"
  by (auto simp: selectThought_def rowsAffected_def find_None_iff filter_empty_conv)

lemma updateThoughts_none:
  assumes "selectThought s i = None"
  shows "updateThoughts f i s = s"
proof -
  from assms have "\<forall>t\<in>set (thoughts s). ID t \<noteq> i"
    by (auto simp: selectThought_def find_None_iff)
  then have "map (\<lambda>t. if ID t = i then f t else t) (thoughts s) = thoughts s"
    by (induction "thoughts s") (auto simp: map_idI)
  then show ?thesis by (simp add: updateThoughts_def)
qed

lemma exStore_select:
  "selectThought (exStore st el) 1 = Some (exThought st el)"
  by (simp add: selectThought_def exStore_def exThought_def)

section \<open>Marking a thought tended\<close>

lemma MarkThoughtTended_found:
  assumes "0 < i" and "selectThought s i = Some t"
  shows "MarkThoughtTended s now i note =
     (if CurrentState t = StateEvolved \<or> CurrentState t = StateReleased \<or>
         CurrentState t = StateArchived
      then (Some (TerminalState (CurrentState t)), s)
      else (None,
            insertEvent i ''state_change'' now (Some (CurrentState t)) (Some StateTended)
              (noteValue note)
              (updateThoughts
                 (\<lambda>t. t\<lparr>CurrentState := StateTended, TendCounter := TendCounter t + 1,
                        LastTendedAt := Some now, UpdatedAt := now\<rparr>) i s)))"
  using assms by (simp add: MarkThoughtTended_def transaction_def Let_def)

text \<open>
  Claim C1, as amended. For a thought that exists, \<^verbatim>\<open>MarkThoughtTended\<close> succeeds exactly
  when the current state is none of \<^verbatim>\<open>evolved\<close>, \<^verbatim>\<open>released\<close>, \<^verbatim>\<open>archived\<close>; the
  eligibility time is not consulted and a thought that is already tended is accepted. On
  success the state is \<^verbatim>\<open>tended\<close>, the tend counter is one more, and \<^verbatim>\<open>last_tended_at\<close>
  and \<^verbatim>\<open>updated_at\<close> are the current time. On failure the error names the terminal
  state and the store is unchanged.
\<close>

theorem MarkThoughtTended_guard:
  assumes "0 < i" and "selectThought s i = Some t"
  shows "(fst (MarkThoughtTended s now i note) = None \<longleftrightarrow>
            CurrentState t \<noteq> StateEvolved \<and> CurrentState t \<noteq> StateReleased \<and>
            CurrentState t \<noteq> StateArchived)
       \<and> (fst (MarkThoughtTended s now i note) = None \<longrightarrow>
            selectThought (snd (MarkThoughtTended s now i note)) i =
              Some (t\<lparr>CurrentState := StateTended, TendCounter := TendCounter t + 1,
                      LastTendedAt := Some now, UpdatedAt := now\<rparr>))
       \<and> (fst (MarkThoughtTended s now i note) \<noteq> None \<longrightarrow>
            fst (MarkThoughtTended s now i note) = Some (TerminalState (CurrentState t)) \<and>
            snd (MarkThoughtTended s now i note) = s)"
  by (simp add: MarkThoughtTended_found [OF assms] selectThought_updateThoughts assms)

text \<open>The theorem of C1 at a captured thought: it is tended once, at \<open>tickB\<close>.\<close>

theorem MarkThoughtTended_guard_witness:
  "selectThought (snd (MarkThoughtTended (exStore StateCaptured tickA) tickB 1 None)) 1 =
     Some ((exThought StateCaptured tickA)
             \<lparr>CurrentState := StateTended, TendCounter := 1,
              LastTendedAt := Some tickB, UpdatedAt := tickB\<rparr>)"
proof -
  have a: "(0::int) < 1" by simp
  have b: "selectThought (exStore StateCaptured tickA) 1 = Some (exThought StateCaptured tickA)"
    by (rule exStore_select)
  have c: "CurrentState (exThought StateCaptured tickA) = StateCaptured"
    by (simp add: exThought_def)
  have d: "TendCounter (exThought StateCaptured tickA) = 0"
    by (simp add: exThought_def)
  show ?thesis
    using MarkThoughtTended_guard [OF a b, of tickB None] c d
    by (simp add: StateCaptured_def StateEvolved_def StateReleased_def StateArchived_def)
qed

text \<open>
  Claim C1 as stated fails: a captured thought whose eligibility time is eighteen hours
  after the current time is marked tended, and so is a thought that is already tended.
\<close>

theorem MarkThoughtTended_guard_counterexample:
  "tickA + second < EligibilityAt (exThought StateCaptured (tickA + 18 * hour))
   \<and> \<not> eligibleText (EligibilityAt (exThought StateCaptured (tickA + 18 * hour))) (tickA + second)
   \<and> selectThought (exStore StateCaptured (tickA + 18 * hour)) 1
       = Some (exThought StateCaptured (tickA + 18 * hour))
   \<and> fst (MarkThoughtTended (exStore StateCaptured (tickA + 18 * hour)) (tickA + second) 1 None)
       = None
   \<and> selectThought (exStore StateTended tickA) 1 = Some (exThought StateTended tickA)
   \<and> fst (MarkThoughtTended (exStore StateTended tickA) (tickA + second) 1 None) = None"
  by code_simp

section \<open>Evolving a thought directly\<close>

text \<open>
  Claim C2 at its failing inputs: \<^verbatim>\<open>ToEvolve\<close> on an archived thought and on a released
  thought succeeds, the thought becomes \<^verbatim>\<open>evolved\<close>, and the event records the terminal
  state it left.
\<close>

theorem ToEvolve_leaves_terminal_state:
  "fst (ToEvolve (exStore StateArchived tickA) tickB 1) = None
   \<and> map CurrentState (thoughts (snd (ToEvolve (exStore StateArchived tickA) tickB 1)))
       = [StateEvolved]
   \<and> map PreviousState (events (snd (ToEvolve (exStore StateArchived tickA) tickB 1)))
       = [Some StateArchived]
   \<and> fst (ToEvolve (exStore StateReleased tickA) tickB 1) = None
   \<and> map CurrentState (thoughts (snd (ToEvolve (exStore StateReleased tickA) tickB 1)))
       = [StateEvolved]"
  by code_simp

section \<open>Updating the content\<close>

text \<open>
  Claim C3, as amended. \<^verbatim>\<open>UpdateThoughtContent\<close> succeeds exactly when the id is
  positive, the content is not blank and the thought exists. On success the thought has
  the new content and \<^verbatim>\<open>updated_at\<close> is the current time, and the event log is the one
  before: no event row is appended. On failure the store is unchanged.
\<close>

theorem UpdateThoughtContent_effect:
  "(fst (UpdateThoughtContent s now i content) = None \<longleftrightarrow>
       0 < i \<and> \<not> blank content \<and> selectThought s i \<noteq> None)
   \<and> (fst (UpdateThoughtContent s now i content) = None \<longrightarrow>
         events (snd (UpdateThoughtContent s now i content)) = events s
         \<and> selectThought (snd (UpdateThoughtContent s now i content)) i =
             map_option (\<lambda>t. t\<lparr>Content := content, UpdatedAt := now\<rparr>) (selectThought s i))
   \<and> (fst (UpdateThoughtContent s now i content) \<noteq> None \<longrightarrow>
         snd (UpdateThoughtContent s now i content) = s)"
proof (cases "selectThought s i")
  case None
  then show ?thesis
    by (simp add: UpdateThoughtContent_def Let_def rowsAffected_zero updateThoughts_none)
next
  case (Some t)
  then show ?thesis
    by (simp add: UpdateThoughtContent_def Let_def rowsAffected_pos selectThought_updateThoughts)
qed

text \<open>The theorem of C3 at a thought that exists (success) and at an id that does not
  (failure, the store unchanged).\<close>

theorem UpdateThoughtContent_effect_witness:
  "fst (UpdateThoughtContent (exStore StateCaptured tickA) tickB 1 ''buy oat milk'') = None
   \<and> events (snd (UpdateThoughtContent (exStore StateCaptured tickA) tickB 1 ''buy oat milk''))
       = []
   \<and> selectThought
       (snd (UpdateThoughtContent (exStore StateCaptured tickA) tickB 1 ''buy oat milk'')) 1 =
       Some ((exThought StateCaptured tickA)\<lparr>Content := ''buy oat milk'', UpdatedAt := tickB\<rparr>)
   \<and> fst (UpdateThoughtContent (exStore StateCaptured tickA) tickB 2 ''buy oat milk'') \<noteq> None
   \<and> snd (UpdateThoughtContent (exStore StateCaptured tickA) tickB 2 ''buy oat milk'')
       = exStore StateCaptured tickA"
proof -
  have a: "selectThought (exStore StateCaptured tickA) 1 = Some (exThought StateCaptured tickA)"
    by (rule exStore_select)
  have b: "selectThought (exStore StateCaptured tickA) 2 = None"
    by (simp add: selectThought_def exStore_def exThought_def)
  have c: "\<not> blank ''buy oat milk''" by code_simp
  have d: "events (exStore StateCaptured tickA) = []" by (simp add: exStore_def)
  show ?thesis
    using UpdateThoughtContent_effect [of "exStore StateCaptured tickA" tickB 1 "''buy oat milk''"]
      UpdateThoughtContent_effect [of "exStore StateCaptured tickA" tickB 2 "''buy oat milk''"]
      a b c d
    by simp
qed

text \<open>
  Claim C3 as stated fails: a successful update leaves the event log as long as it was.
\<close>

theorem UpdateThoughtContent_effect_counterexample:
  "fst (UpdateThoughtContent (exStore StateCaptured tickA) tickB 1 ''buy oat milk'') = None
   \<and> length (events
        (snd (UpdateThoughtContent (exStore StateCaptured tickA) tickB 1 ''buy oat milk'')))
       = length (events (exStore StateCaptured tickA))"
  by code_simp

section \<open>Timestamps: text order and time order\<close>

lemma Format_tickA: "Format tickA = ''2023-11-14T22:13:20Z''"
  by code_simp

lemma Format_tickB: "Format tickB = ''2023-11-14T22:13:20.5Z''"
  by code_simp

lemma Format_tickC: "Format tickC = ''2023-11-14T22:13:20.12345Z''"
  by code_simp

lemma Format_tickD: "Format tickD = ''2023-11-14T22:13:20.123451Z''"
  by code_simp

lemma selectEvents_two:
  "map At (selectEvents exStoreTwoEvents 1) = [tickB, tickA]"
  by (simp add: selectEvents_def exStoreTwoEvents_def exEvent_def Format_tickA Format_tickB
        less_eq_prod_def less_list_code list_le_def)

lemma tend_ready_at_tickD:
  "CountTendReady (exStore StateCaptured tickC) tickD = 0
   \<and> GetTendThought (exStore StateCaptured tickC) tickD 1 = Inl NotFound"
  by (simp add: CountTendReady_def GetTendThought_def tendReady_def eligibleText_def
        exStore_def exThought_def Format_tickC Format_tickD list_le_def less_list_code)

text \<open>
  Claim C4 at its failing inputs. \<open>tickA\<close> is before \<open>tickB\<close> and \<open>tickC\<close> is before
  \<open>tickD\<close>, but the stored text of the later instant is the smaller string: the fraction
  has no fixed width, and \<^verbatim>\<open>Z\<close> sorts after the point and after every digit. So a
  captured thought that became eligible at \<open>tickC\<close> is not counted as ready at \<open>tickD\<close>,
  a microsecond later, and \<^verbatim>\<open>GetTendThought\<close> does not find it; and the event written
  at \<open>tickB\<close> is listed before the event written at \<open>tickA\<close>.
\<close>

theorem Format_order_differs:
  "tickA < tickB
   \<and> Format tickA = ''2023-11-14T22:13:20Z''
   \<and> Format tickB = ''2023-11-14T22:13:20.5Z''
   \<and> Format tickB < Format tickA
   \<and> tickC < tickD
   \<and> Format tickC = ''2023-11-14T22:13:20.12345Z''
   \<and> Format tickD = ''2023-11-14T22:13:20.123451Z''
   \<and> Format tickD < Format tickC
   \<and> EligibilityAt (exThought StateCaptured tickC) < tickD
   \<and> CountTendReady (exStore StateCaptured tickC) tickD = 0
   \<and> GetTendThought (exStore StateCaptured tickC) tickD 1 = Inl NotFound
   \<and> map At (events exStoreTwoEvents) = [tickA, tickB]
   \<and> map At (selectEvents exStoreTwoEvents 1) = [tickB, tickA]"
proof -
  have ab: "tickA < tickB" and cd: "tickC < tickD"
    by (simp_all add: tickA_def tickB_def tickC_def tickD_def)
  have ba: "Format tickB < Format tickA"
    by (simp add: Format_tickA Format_tickB less_list_code)
  have dc: "Format tickD < Format tickC"
    by (simp add: Format_tickC Format_tickD less_list_code)
  have el: "EligibilityAt (exThought StateCaptured tickC) < tickD"
    by (simp add: exThought_def tickC_def tickD_def)
  have ev: "map At (events exStoreTwoEvents) = [tickA, tickB]"
    by (simp add: exStoreTwoEvents_def exEvent_def)
  show ?thesis
    using ab cd ba dc el ev Format_tickA Format_tickB Format_tickC Format_tickD
      selectEvents_two tend_ready_at_tickD
    by (elim conjE) (intro conjI; assumption)
qed

section \<open>Reindexing after a release\<close>

lemma Event_ThoughtID_same: "ThoughtID e = k \<Longrightarrow> e\<lparr>ThoughtID := k\<rparr> = e"
  by (cases e) auto

lemma idMaps_three:
  "idMaps [a\<lparr>ID := 1\<rparr>, b\<lparr>ID := 2\<rparr>, d\<lparr>ID := 4\<rparr>] = [(1, 1), (2, 2), (4, 3)]"
  by (simp add: idMaps_def upt_rec)

lemma tmpUpdateThoughts_three:
  "tmpUpdateThoughts [(1, 1), (2, 2), (4, 3)] [a\<lparr>ID := 1\<rparr>, b\<lparr>ID := 2\<rparr>, d\<lparr>ID := 4\<rparr>]
   = Inr [a\<lparr>ID := - 1\<rparr>, b\<lparr>ID := - 2\<rparr>, d\<lparr>ID := - 3\<rparr>]"
  by (simp add: setThoughtID_def)

lemma flipThoughts_three:
  "flipThoughts [a\<lparr>ID := - 1\<rparr>, b\<lparr>ID := - 2\<rparr>, d\<lparr>ID := - 3\<rparr>]
   = Inr [a\<lparr>ID := 1\<rparr>, b\<lparr>ID := 2\<rparr>, d\<lparr>ID := 3\<rparr>]"
  by (simp add: flipThoughts_def)

lemma events_three:
  assumes "list_all (\<lambda>e. ThoughtID e = 1 \<or> ThoughtID e = 2 \<or> ThoughtID e = 4) es"
  shows "flipEvents (tmpUpdateEvents [(1, 1), (2, 2), (4, 3)] es) = map moveEvent es"
  using assms
  by (induction es)
     (auto simp: flipEvents_def setEventThoughtID_def moveEvent_def Event_ThoughtID_same)

lemma released_events:
  assumes "list_all (\<lambda>e. ThoughtID e = 1 \<or> ThoughtID e = 2 \<or> ThoughtID e = 3 \<or> ThoughtID e = 4) es"
  shows "list_all (\<lambda>e. ThoughtID e = 1 \<or> ThoughtID e = 2 \<or> ThoughtID e = 4)
           (filter (\<lambda>e. ThoughtID e \<noteq> 3) es)"
  using assms by (induction es) auto

lemma fk_three:
  assumes "list_all (\<lambda>e. ThoughtID e = 1 \<or> ThoughtID e = 2 \<or> ThoughtID e = 4) es"
  shows "filter (\<lambda>e. \<not> list_ex (\<lambda>t. ID t = ThoughtID e)
                        [a\<lparr>ID := 1\<rparr>, b\<lparr>ID := 2\<rparr>, d\<lparr>ID := 3\<rparr>]) (map moveEvent es) = []"
  using assms by (induction es) (auto simp: moveEvent_def)

lemma ReleaseThought_three:
  assumes "thoughts s = [a\<lparr>ID := 1\<rparr>, b\<lparr>ID := 2\<rparr>, c\<lparr>ID := 3\<rparr>, d\<lparr>ID := 4\<rparr>]"
  shows "ReleaseThought s 3 =
     (None, s\<lparr>events := filter (\<lambda>e. ThoughtID e \<noteq> 3) (events s),
              thoughts := [a\<lparr>ID := 1\<rparr>, b\<lparr>ID := 2\<rparr>, d\<lparr>ID := 4\<rparr>]\<rparr>)"
  using assms by (simp add: ReleaseThought_def transaction_def rowsAffected_def Let_def)

lemma ReindexThoughtIDs_three:
  assumes "thoughts s1 = [a\<lparr>ID := 1\<rparr>, b\<lparr>ID := 2\<rparr>, d\<lparr>ID := 4\<rparr>]"
    and "list_all (\<lambda>e. ThoughtID e = 1 \<or> ThoughtID e = 2 \<or> ThoughtID e = 4) (events s1)"
  shows "ReindexThoughtIDs s1 =
     (None, s1\<lparr>thoughts := [a\<lparr>ID := 1\<rparr>, b\<lparr>ID := 2\<rparr>, d\<lparr>ID := 3\<rparr>],
               events := map moveEvent (events s1), thoughts_seq := 3\<rparr>)"
proof -
  have fk: "foreign_key_check (s1\<lparr>thoughts := [a\<lparr>ID := 1\<rparr>, b\<lparr>ID := 2\<rparr>, d\<lparr>ID := 3\<rparr>],
               events := map moveEvent (events s1), thoughts_seq := 3\<rparr>) = []"
    using fk_three [OF assms(2)] by (simp add: foreign_key_check_def)
  show ?thesis
    unfolding ReindexThoughtIDs_def transaction_def
    using fk
    by (simp add: assms(1) idMaps_three tmpUpdateThoughts_three flipThoughts_three
          events_three [OF assms(2)] maxThoughtID_def Let_def
          del: tmpUpdateThoughts.simps tmpUpdateEvents.simps)
qed

lemma joinEvents_three:
  assumes "list_all (\<lambda>e. ThoughtID e = 1 \<or> ThoughtID e = 2 \<or> ThoughtID e = 4) es"
  shows "joinEvents [(1, 1), (2, 2), (4, 3)] es = sort_key EventID (map moveEvent es)"
proof -
  have "List.map_filter
          (\<lambda>e. case map_of [(1, 1), (2, 2), (4, 3)] (ThoughtID e) of None \<Rightarrow> None
                | Some newID \<Rightarrow> Some (e\<lparr>ThoughtID := newID\<rparr>)) es = map moveEvent es"
    using assms
    by (induction es) (auto simp: List.map_filter_simps moveEvent_def Event_ThoughtID_same)
  then show ?thesis by (simp only: joinEvents_def)
qed

lemma ReindexThoughtIDs_part001_three:
  assumes "thoughts s1 = [a\<lparr>ID := 1\<rparr>, b\<lparr>ID := 2\<rparr>, d\<lparr>ID := 4\<rparr>]"
    and "list_all (\<lambda>e. ThoughtID e = 1 \<or> ThoughtID e = 2 \<or> ThoughtID e = 4) (events s1)"
  shows "fst (ReindexThoughtIDs_part001 s1) = None
       \<and> thoughts (snd (ReindexThoughtIDs_part001 s1))
           = [a\<lparr>ID := 1\<rparr>, b\<lparr>ID := 2\<rparr>, d\<lparr>ID := 3\<rparr>]
       \<and> events (snd (ReindexThoughtIDs_part001 s1))
           = sort_key EventID (map moveEvent (events s1))"
  unfolding ReindexThoughtIDs_part001_def transaction_def
  by (simp add: assms(1) idMaps_three joinThoughts_def joinEvents_three [OF assms(2)] Let_def)

text \<open>
  Claim C5. A store holds four thoughts with the ids 1, 2, 3, 4 (their other columns
  are arbitrary) and events that each belong to one of them. Releasing thought 3 and
  reindexing succeed; the thoughts are then the first, second and fourth of before, in
  that order, with the ids 1, 2, 3; the events of thought 3 are gone, the events of
  thought 4 belong to thought 3 and every other event is unchanged; and the foreign-key
  check finds no violation. The same holds for the reindexing of part 001, which
  returns the events in the order of their ids.
\<close>

theorem Reindex_after_release:
  assumes "thoughts s = [a\<lparr>ID := 1\<rparr>, b\<lparr>ID := 2\<rparr>, c\<lparr>ID := 3\<rparr>, d\<lparr>ID := 4\<rparr>]"
    and "list_all (\<lambda>e. ThoughtID e = 1 \<or> ThoughtID e = 2 \<or> ThoughtID e = 3 \<or> ThoughtID e = 4)
           (events s)"
    and "s1 = snd (ReleaseThought s 3)"
    and "s2 = snd (ReindexThoughtIDs s1)"
    and "s2' = snd (ReindexThoughtIDs_part001 s1)"
  shows "fst (ReleaseThought s 3) = None
       \<and> fst (ReindexThoughtIDs s1) = None
       \<and> thoughts s2 = [a\<lparr>ID := 1\<rparr>, b\<lparr>ID := 2\<rparr>, d\<lparr>ID := 3\<rparr>]
       \<and> events s2 = map (\<lambda>e. if ThoughtID e = 4 then e\<lparr>ThoughtID := 3\<rparr> else e)
                       (filter (\<lambda>e. ThoughtID e \<noteq> 3) (events s))
       \<and> foreign_key_check s2 = []
       \<and> fst (ReindexThoughtIDs_part001 s1) = None
       \<and> thoughts s2' = [a\<lparr>ID := 1\<rparr>, b\<lparr>ID := 2\<rparr>, d\<lparr>ID := 3\<rparr>]
       \<and> events s2' = sort_key EventID
                        (map (\<lambda>e. if ThoughtID e = 4 then e\<lparr>ThoughtID := 3\<rparr> else e)
                           (filter (\<lambda>e. ThoughtID e \<noteq> 3) (events s)))
       \<and> foreign_key_check s2' = []"
proof -
  have rel: "ReleaseThought s 3 =
     (None, s\<lparr>events := filter (\<lambda>e. ThoughtID e \<noteq> 3) (events s),
              thoughts := [a\<lparr>ID := 1\<rparr>, b\<lparr>ID := 2\<rparr>, d\<lparr>ID := 4\<rparr>]\<rparr>)"
    by (rule ReleaseThought_three [OF assms(1)])
  have th1: "thoughts s1 = [a\<lparr>ID := 1\<rparr>, b\<lparr>ID := 2\<rparr>, d\<lparr>ID := 4\<rparr>]"
    and ev1: "events s1 = filter (\<lambda>e. ThoughtID e \<noteq> 3) (events s)"
    by (simp_all add: assms(3) rel)
  have ok1: "list_all (\<lambda>e. ThoughtID e = 1 \<or> ThoughtID e = 2 \<or> ThoughtID e = 4) (events s1)"
    unfolding ev1 by (rule released_events [OF assms(2)])
  have mv: "moveEvent = (\<lambda>e. if ThoughtID e = 4 then e\<lparr>ThoughtID := 3\<rparr> else e)"
    by (rule ext) (simp add: moveEvent_def)
  note re = ReindexThoughtIDs_three [OF th1 ok1]
  note re' = ReindexThoughtIDs_part001_three [OF th1 ok1]
  have fk: "foreign_key_check s2 = []"
    using fk_three [OF ok1, of a b d] by (simp add: assms(4) re foreign_key_check_def)
  have fk': "foreign_key_check s2' = []"
    using fk_three [OF ok1, of a b d] re'
    by (simp add: assms(5) foreign_key_check_def filter_empty_conv)
  show ?thesis
    using fk fk' re' by (simp add: rel re assms(4,5) ev1 mv)
qed

text \<open>The theorem of C5 on a store of four thoughts and five events, two of them of
  thought 4 and one of thought 3.\<close>

theorem Reindex_after_release_witness:
  "fst (ReleaseThought exStore4 3) = None
   \<and> fst (ReindexThoughtIDs (snd (ReleaseThought exStore4 3))) = None
   \<and> thoughts (snd (ReindexThoughtIDs (snd (ReleaseThought exStore4 3)))) =
       [(exThought StateCaptured tickA)\<lparr>ID := 1\<rparr>, (exThought StateResting tickA)\<lparr>ID := 2\<rparr>,
        (exThought StateArchived tickA)\<lparr>ID := 3\<rparr>]
   \<and> events (snd (ReindexThoughtIDs (snd (ReleaseThought exStore4 3)))) =
       [exEvent 1 1, exEvent 2 2, exEvent 4 3, exEvent 5 3]
   \<and> foreign_key_check (snd (ReindexThoughtIDs (snd (ReleaseThought exStore4 3)))) = []
   \<and> events (snd (ReindexThoughtIDs_part001 (snd (ReleaseThought exStore4 3)))) =
       [exEvent 1 1, exEvent 2 2, exEvent 4 3, exEvent 5 3]"
proof -
  have a: "thoughts exStore4 =
     [(exThought StateCaptured tickA)\<lparr>ID := 1\<rparr>, (exThought StateResting tickA)\<lparr>ID := 2\<rparr>,
      (exThought StateTended tickA)\<lparr>ID := 3\<rparr>, (exThought StateArchived tickA)\<lparr>ID := 4\<rparr>]"
    by (simp add: exStore4_def)
  have b: "list_all (\<lambda>e. ThoughtID e = 1 \<or> ThoughtID e = 2 \<or> ThoughtID e = 3 \<or> ThoughtID e = 4)
             (events exStore4)"
    by (simp add: exStore4_def exEvent_def)
  have d: "map (\<lambda>e. if ThoughtID e = 4 then e\<lparr>ThoughtID := 3\<rparr> else e)
             (filter (\<lambda>e. ThoughtID e \<noteq> 3) (events exStore4))
           = [exEvent 1 1, exEvent 2 2, exEvent 4 3, exEvent 5 3]"
    by (simp add: exStore4_def exEvent_def)
  have e: "sort_key EventID [exEvent 1 1, exEvent 2 2, exEvent 4 3, exEvent 5 3]
           = [exEvent 1 1, exEvent 2 2, exEvent 4 3, exEvent 5 3]"
    by (simp add: exEvent_def)
  show ?thesis
    using Reindex_after_release [OF a b refl refl refl]
    unfolding d e by simp
qed

section \<open>Resolving a tended thought\<close>

lemma Transition_found:
  assumes "0 < i" and "selectThought s i = Some t"
  shows "TransitionPostTendResolutionStrict s now settle i next note =
     (if next \<noteq> StateResting \<and> next \<noteq> StateEvolved \<and> next \<noteq> StateReleased \<and>
         next \<noteq> StateArchived
      then (Some (InvalidNextState next), s)
      else if CurrentState t \<noteq> StateTended then (Some (NotTended (CurrentState t)), s)
      else (None,
            insertEvent i ''state_change'' now (Some (CurrentState t)) (Some next)
              (noteValue note)
              (if next = StateResting
               then updateThoughts
                      (\<lambda>t. t\<lparr>CurrentState := next, UpdatedAt := now,
                             EligibilityAt := now + settle\<rparr>) i s
               else updateThoughts (\<lambda>t. t\<lparr>CurrentState := next, UpdatedAt := now\<rparr>) i s)))"
  using assms by (simp add: TransitionPostTendResolutionStrict_def transaction_def Let_def)

text \<open>
  Claim C6. For a thought that exists, with \<open>r\<close> the result of
  \<^verbatim>\<open>TransitionPostTendResolutionStrict\<close>: it succeeds exactly when the current state is
  \<^verbatim>\<open>tended\<close> and the next state is one of \<^verbatim>\<open>resting\<close>, \<^verbatim>\<open>evolved\<close>, \<^verbatim>\<open>released\<close>,
  \<^verbatim>\<open>archived\<close>. To \<^verbatim>\<open>resting\<close>, the thought gets the state, the timestamp and
  \<^verbatim>\<open>eligibility_at\<close> = now + settle duration; to a terminal state, it gets the state and
  the timestamp only. The tend counter is the one before in both cases. When the current
  state is not \<^verbatim>\<open>tended\<close> the call fails, and a failed call leaves the store unchanged.
\<close>

theorem TransitionPostTendResolutionStrict_guard:
  assumes "0 < i" and "selectThought s i = Some t"
    and "r = TransitionPostTendResolutionStrict s now settle i next note"
  shows "(fst r = None \<longleftrightarrow>
            CurrentState t = StateTended \<and>
            (next = StateResting \<or> next = StateEvolved \<or> next = StateReleased \<or>
             next = StateArchived))
       \<and> (fst r = None \<and> next = StateResting \<longrightarrow>
            selectThought (snd r) i =
              Some (t\<lparr>CurrentState := StateResting, UpdatedAt := now,
                      EligibilityAt := now + settle\<rparr>))
       \<and> (fst r = None \<and> next \<noteq> StateResting \<longrightarrow>
            selectThought (snd r) i = Some (t\<lparr>CurrentState := next, UpdatedAt := now\<rparr>))
       \<and> (fst r = None \<longrightarrow>
            map_option TendCounter (selectThought (snd r) i) = Some (TendCounter t))
       \<and> (CurrentState t \<noteq> StateTended \<longrightarrow> fst r \<noteq> None)
       \<and> (fst r \<noteq> None \<longrightarrow> snd r = s)"
  unfolding assms(3) Transition_found [OF assms(1,2)]
  by (simp add: selectThought_updateThoughts assms(2))

text \<open>The theorem of C6 at a tended thought that is put to rest at \<open>tickB\<close> with a
  settle duration of eighteen hours.\<close>

theorem TransitionPostTendResolutionStrict_guard_witness:
  "fst (TransitionPostTendResolutionStrict (exStore StateTended tickA) tickB (18 * hour) 1
          StateResting None) = None
   \<and> selectThought
       (snd (TransitionPostTendResolutionStrict (exStore StateTended tickA) tickB (18 * hour) 1
               StateResting None)) 1
       = Some ((exThought StateTended tickA)
                 \<lparr>CurrentState := StateResting, UpdatedAt := tickB,
                  EligibilityAt := tickB + 18 * hour\<rparr>)"
proof -
  have a: "(0::int) < 1" by simp
  have b: "selectThought (exStore StateTended tickA) 1 = Some (exThought StateTended tickA)"
    by (rule exStore_select)
  have c: "CurrentState (exThought StateTended tickA) = StateTended"
    by (simp add: exThought_def)
  show ?thesis
    using TransitionPostTendResolutionStrict_guard
            [OF a b refl, of tickB "18 * hour" StateResting None] c
    by simp
qed

section \<open>Creating a thought and reading it back\<close>

lemma fold_max_ge: "(a::int) \<le> fold max xs a"
  by (induction xs arbitrary: a) (auto intro: order_trans [OF max.cobounded2])

lemma fold_max_upper: "x \<in> set xs \<Longrightarrow> (x::int) \<le> fold max xs a"
proof (induction xs arbitrary: a)
  case Nil
  then show ?case by simp
next
  case (Cons y ys)
  show ?case
  proof (cases "x = y")
    case True
    have "y \<le> max y a" by simp
    also have "\<dots> \<le> fold max ys (max y a)" by (rule fold_max_ge)
    finally show ?thesis using True by simp
  next
    case False
    with Cons show ?thesis by simp
  qed
qed

lemma nextRowid_above: "x \<in> set ids \<Longrightarrow> x < nextRowid seq ids"
proof (cases ids)
  case Nil
  assume "x \<in> set ids"
  with Nil show ?thesis by simp
next
  case (Cons i rest)
  assume x: "x \<in> set ids"
  have "x \<le> fold max rest i"
  proof (cases "x = i")
    case True
    then show ?thesis by (simp add: fold_max_ge)
  next
    case False
    with x Cons show ?thesis by (simp add: fold_max_upper)
  qed
  then show ?thesis by (simp add: nextRowid_def Cons)
qed

lemma nextRowid_above_seq: "seq < nextRowid seq ids"
  by (simp add: nextRowid_def)

lemma find_append_new:
  assumes "\<forall>t\<in>set xs. \<not> P t" and "P y"
  shows "find P (xs @ [y]) = Some y"
  using assms by (induction xs) auto

text \<open>The sequence counter of \<^verbatim>\<open>thoughts\<close> is 0 in the empty store, and no operation
  makes it negative.\<close>

lemma thoughts_seq_insertEvent [simp]:
  "thoughts_seq (insertEvent i k a p n nt s) = thoughts_seq s"
  by (simp add: insertEvent_def Let_def)

lemma thoughts_seq_updateThoughts [simp]:
  "thoughts_seq (updateThoughts f i s) = thoughts_seq s"
  by (simp add: updateThoughts_def)

lemma maxThoughtID_nonneg:
  assumes "list_all (\<lambda>t. 0 \<le> ID t) rows"
  shows "0 \<le> maxThoughtID rows"
proof (cases rows)
  case Nil
  then show ?thesis by (simp add: maxThoughtID_def)
next
  case (Cons t ts)
  with assms have "0 \<le> ID t" by simp
  also have "ID t \<le> fold max (map ID ts) (ID t)" by (rule fold_max_ge)
  finally show ?thesis by (simp add: maxThoughtID_def Cons)
qed

lemma flipThoughts_nonneg:
  assumes "flipThoughts rows = Inr rows'"
  shows "list_all (\<lambda>t. 0 \<le> ID t) rows'"
  using assms
  by (auto simp: flipThoughts_def Let_def list_all_iff split: if_splits)

lemma joinThoughts_nonneg:
  assumes "list_all (\<lambda>(oldID, newID). 0 \<le> newID) m"
  shows "list_all (\<lambda>t. 0 \<le> ID t) (joinThoughts m rows)"
  using assms by (auto simp: joinThoughts_def list_all_iff)

lemma idMaps_nonneg: "list_all (\<lambda>(oldID, newID). 0 \<le> newID) (idMaps rows)"
  by (auto simp: idMaps_def list_all_iff dest!: set_zip_rightD)

lemma thoughts_seq_kept:
  assumes "0 \<le> thoughts_seq s"
  shows "0 \<le> thoughts_seq (snd (CreateThought s now settle content))"
    and "0 \<le> thoughts_seq (snd (UpdateThoughtContent s now i content))"
    and "0 \<le> thoughts_seq (snd (MarkThoughtTended s now i note))"
    and "0 \<le> thoughts_seq (snd (TransitionPostTendResolutionStrict s now settle i next note))"
    and "0 \<le> thoughts_seq (snd (ToEvolve s now i))"
    and "0 \<le> thoughts_seq (snd (ReleaseThought s i))"
    and "0 \<le> thoughts_seq (snd (ReindexThoughtIDs s))"
    and "0 \<le> thoughts_seq (snd (ReindexThoughtIDs_part001 s))"
proof -
  show "0 \<le> thoughts_seq (snd (CreateThought s now settle content))"
    using assms nextRowid_above_seq [of "thoughts_seq s" "map ID (thoughts s)"]
    by (simp add: CreateThought_def Let_def)
  show "0 \<le> thoughts_seq (snd (UpdateThoughtContent s now i content))"
    using assms by (simp add: UpdateThoughtContent_def Let_def)
  show "0 \<le> thoughts_seq (snd (MarkThoughtTended s now i note))"
    using assms
    by (simp add: MarkThoughtTended_def transaction_def Let_def split: option.splits)
  show "0 \<le> thoughts_seq (snd (TransitionPostTendResolutionStrict s now settle i next note))"
    using assms
    by (simp add: TransitionPostTendResolutionStrict_def transaction_def Let_def
        split: option.splits)
  show "0 \<le> thoughts_seq (snd (ToEvolve s now i))"
    using assms by (simp add: ToEvolve_def transaction_def Let_def split: option.splits)
  show "0 \<le> thoughts_seq (snd (ReleaseThought s i))"
    using assms by (simp add: ReleaseThought_def transaction_def Let_def)
  show "0 \<le> thoughts_seq (snd (ReindexThoughtIDs s))"
    using assms
    by (auto simp: ReindexThoughtIDs_def transaction_def Let_def
        split: sum.splits dest!: flipThoughts_nonneg maxThoughtID_nonneg)
  show "0 \<le> thoughts_seq (snd (ReindexThoughtIDs_part001 s))"
    using assms maxThoughtID_nonneg [OF joinThoughts_nonneg [OF idMaps_nonneg]]
    by (simp add: ReindexThoughtIDs_part001_def transaction_def Let_def)
qed

text \<open>
  Claim C7. For every content that is not empty, on a store whose sequence counter for
  \<^verbatim>\<open>thoughts\<close> is not negative, \<^verbatim>\<open>CreateThought\<close> returns an id, and \<^verbatim>\<open>GetThought\<close> of
  that id on the resulting store returns a thought in the state \<^verbatim>\<open>captured\<close>, with the
  content as given, created at the current time, and with \<^verbatim>\<open>eligibility_at\<close> =
  \<^verbatim>\<open>created_at\<close> + settle duration.
\<close>

theorem CreateThought_then_GetThought:
  assumes "content \<noteq> []" and "0 \<le> thoughts_seq s"
  shows "\<exists>i s' t es.
           CreateThought s now settle content = (Inr i, s')
         \<and> GetThought s' i = Inr (t, es)
         \<and> CurrentState t = StateCaptured
         \<and> Content t = content
         \<and> CreatedAt t = now
         \<and> EligibilityAt t = CreatedAt t + settle"
proof -
  define i where "i = nextRowid (thoughts_seq s) (map ID (thoughts s))"
  define row where
    "row = \<lparr>ID = i, Content = content, CurrentState = StateCaptured, TendCounter = 0,
            CreatedAt = now, UpdatedAt = now, LastTendedAt = None,
            EligibilityAt = now + settle, Valence = None, Energy = None\<rparr>"
  define s' where "s' = s\<lparr>thoughts := thoughts s @ [row], thoughts_seq := i\<rparr>"
  have create: "CreateThought s now settle content = (Inr i, s')"
    using assms(1) by (simp add: CreateThought_def Let_def i_def row_def s'_def)
  have pos: "0 < i"
    using nextRowid_above_seq [of "thoughts_seq s" "map ID (thoughts s)"] assms(2)
    by (simp add: i_def)
  have fresh: "\<forall>t\<in>set (thoughts s). \<not> ID t = i"
  proof
    fix t
    assume "t \<in> set (thoughts s)"
    then have "ID t \<in> set (map ID (thoughts s))" by simp
    then have "ID t < i" unfolding i_def by (rule nextRowid_above)
    then show "\<not> ID t = i" by simp
  qed
  have "selectThought s' i = Some row"
    unfolding selectThought_def s'_def
    using find_append_new [of "thoughts s" "\<lambda>t. ID t = i" row] fresh
    by (simp add: row_def)
  then have get: "GetThought s' i = Inr (row, selectEvents s' i)"
    using pos by (simp add: GetThought_def)
  show ?thesis
    using create get by (simp add: row_def)
qed

text \<open>The theorem of C7 on the empty store, with a settle duration of eighteen hours.\<close>

theorem CreateThought_then_GetThought_witness:
  "\<exists>i s' t es.
       CreateThought emptyStore tickA (18 * hour) ''buy milk'' = (Inr i, s')
     \<and> GetThought s' i = Inr (t, es)
     \<and> CurrentState t = StateCaptured
     \<and> Content t = ''buy milk''
     \<and> CreatedAt t = tickA
     \<and> EligibilityAt t = CreatedAt t + 18 * hour"
proof -
  have a: "''buy milk'' \<noteq> []" by simp
  have b: "0 \<le> thoughts_seq emptyStore" by (simp add: emptyStore_def)
  show ?thesis using CreateThought_then_GetThought [OF a b] .
qed

section \<open>Migrating twice\<close>

lemma createTable_kept:
  assumes "createTable n cols cat = Some cat'" and "map_of cat m = Some ob"
  shows "map_of cat' m = Some ob"
  using assms
  by (auto simp: createTable_def map_add_Some_iff split: option.splits SchemaObject.splits)

lemma createIndex_kept:
  assumes "createIndex n tbl cols cat = Some cat'" and "map_of cat m = Some ob"
  shows "map_of cat' m = Some ob"
  using assms
  by (auto simp: createIndex_def map_add_Some_iff
      split: option.splits SchemaObject.splits if_splits)

lemma createTable_is_table:
  assumes "createTable n cols cat = Some cat'"
  shows "\<exists>cs. map_of cat' n = Some (Table cs)"
  using assms
  by (auto simp: createTable_def map_add_def split: option.splits SchemaObject.splits)

lemma createTable_again:
  assumes "map_of cat n = Some (Table cs)"
  shows "createTable n cols cat = Some cat"
  using assms by (simp add: createTable_def)

lemma migrateSteps_kept:
  assumes "migrateSteps db = Inr db1" and "map_of (catalog db) m = Some ob"
  shows "map_of (catalog db1) m = Some ob"
proof -
  from assms(1) obtain c1 c2 c3 c4 c5 where
    c: "createTable ''thoughts'' thoughtsColumns (catalog db) = Some c1"
       "createTable ''events'' eventsColumns c1 = Some c2"
       "createTable ''app_state'' appStateColumns c2 = Some c3"
       "createIndex ''idx_thoughts_state_eligibility'' ''thoughts''
             [''current_state'', ''eligibility_at''] c3 = Some c4"
       "createIndex ''idx_events_thought_id_at'' ''events'' [''thought_id'', ''at''] c4 = Some c5"
    and db1: "catalog db1 = c5"
    by (auto simp: migrateSteps_def split: option.splits if_splits)
  show ?thesis
    unfolding db1
    using c assms(2) createTable_kept createIndex_kept by meson
qed

lemma migrateSteps_version:
  assumes "migrateSteps db = Inr db1"
  shows "SchemaVersion \<le> currentVersion db1"
proof -
  from assms have v: "schema_migrations db1 = schema_migrations db @ [SchemaVersion]"
    by (auto simp: migrateSteps_def split: option.splits if_splits)
  show ?thesis
  proof (cases "schema_migrations db")
    case Nil
    then show ?thesis by (simp add: currentVersion_def v)
  next
    case (Cons w ws)
    then show ?thesis by (simp add: currentVersion_def v)
  qed
qed

lemma Migrate_current:
  assumes "map_of (catalog db) ''schema_migrations'' = Some (Table cs)"
    and "hasVersionColumn (catalog db)" and "SchemaVersion \<le> currentVersion db"
  shows "Migrate db = (None, db)"
  using assms by (simp add: Migrate_def createTable_again [OF assms(1)] currentVersion_def)

text \<open>
  Claim C8. Running \<^verbatim>\<open>Migrate\<close> on the database that \<^verbatim>\<open>Migrate\<close> left returns the same
  result and the same database: the catalog (the table and index definitions) and the
  recorded versions after two runs are those after one run. When the first run
  succeeded, the recorded version is current, which is what makes the second run return
  before it begins a transaction.
\<close>

theorem Migrate_idempotent:
  "Migrate (snd (Migrate db)) = Migrate db
   \<and> (fst (Migrate db) = None \<longrightarrow> SchemaVersion \<le> currentVersion (snd (Migrate db)))"
proof (cases "createTable ''schema_migrations'' [''version''] (catalog db)")
  case None
  then show ?thesis by (simp add: Migrate_def)
next
  case (Some c0)
  define db0 where "db0 = db\<lparr>catalog := c0\<rparr>"
  from createTable_is_table [OF Some] obtain cs
    where tab: "map_of (catalog db0) ''schema_migrations'' = Some (Table cs)"
    by (auto simp: db0_def)
  have again: "createTable ''schema_migrations'' [''version''] (catalog db0) = Some (catalog db0)"
    by (rule createTable_again [OF tab])
  have same: "Migrate db0 = Migrate db"
    using again Some by (simp add: Migrate_def db0_def currentVersion_def)
  show ?thesis
  proof (cases "hasVersionColumn c0")
    case False
    then have "Migrate db = (Some ReadCurrentVersion, db0)"
      using Some by (simp add: Migrate_def db0_def)
    then show ?thesis using same by simp
  next
    case col: True
    show ?thesis
    proof (cases "SchemaVersion \<le> currentVersion db0")
      case True
      then have "Migrate db = (None, db0)"
        using Some col by (simp add: Migrate_def db0_def)
      then show ?thesis using same True by simp
    next
      case old: False
      show ?thesis
      proof (cases "migrateSteps db0")
        case (Inl e)
        then have "Migrate db = (Some e, db0)"
          using Some col old by (simp add: Migrate_def db0_def)
        then show ?thesis using same by simp
      next
        case (Inr db1)
        then have m: "Migrate db = (None, db1)"
          using Some col old by (simp add: Migrate_def db0_def)
        have tab1: "map_of (catalog db1) ''schema_migrations'' = Some (Table cs)"
          by (rule migrateSteps_kept [OF Inr tab])
        have col1: "hasVersionColumn (catalog db1)"
          using col tab tab1 by (simp add: hasVersionColumn_def db0_def)
        have ver1: "SchemaVersion \<le> currentVersion db1"
          by (rule migrateSteps_version [OF Inr])
        show ?thesis
          using Migrate_current [OF tab1 col1 ver1] ver1 by (simp add: m)
      qed
    qed
  qed
qed

text \<open>The theorem of C8 on the empty database: the first run creates the four tables
  and the two indexes and records version 2; the second run changes nothing.\<close>

theorem Migrate_idempotent_witness:
  "fst (Migrate emptyDatabase) = None
   \<and> schema_migrations (snd (Migrate emptyDatabase)) = [2]
   \<and> map fst (catalog (snd (Migrate emptyDatabase))) =
       [''schema_migrations'', ''thoughts'', ''events'', ''app_state'',
        ''idx_thoughts_state_eligibility'', ''idx_events_thought_id_at'']
   \<and> Migrate (snd (Migrate emptyDatabase)) = (None, snd (Migrate emptyDatabase))
   \<and> SchemaVersion \<le> currentVersion (snd (Migrate emptyDatabase))"
proof -
  have a: "fst (Migrate emptyDatabase) = None" by code_simp
  have b: "schema_migrations (snd (Migrate emptyDatabase)) = [2]" by code_simp
  have c: "map fst (catalog (snd (Migrate emptyDatabase))) =
       [''schema_migrations'', ''thoughts'', ''events'', ''app_state'',
        ''idx_thoughts_state_eligibility'', ''idx_events_thought_id_at'']" by code_simp
  show ?thesis
    using Migrate_idempotent [of emptyDatabase] a b c
    by (simp add: prod_eq_iff)
qed

section \<open>The counter of thoughts ready to tend\<close>

text \<open>
  Claim C9. Where the file can be written, after \<^verbatim>\<open>DidCountTendChange\<close> of store.go the
  persisted count is the argument, whatever was persisted before and whatever the call
  returns, and the call returns whether the persisted count differed from the argument.
  From no persisted value, the calls with 5, 5 and 7 return true, false and true. The
  variant of part 001 does the same for every count that is not negative.
\<close>

theorem DidCountTendChange_last_observed:
  "snd (DidCountTendChange True file n) = Some (Count n)
   \<and> fst (DidCountTendChange True file n) = (file \<noteq> Some (Count n))
   \<and> DidCountTendChange True None 5 = (True, Some (Count 5))
   \<and> DidCountTendChange True (Some (Count 5)) 5 = (False, Some (Count 5))
   \<and> DidCountTendChange True (Some (Count 5)) 7 = (True, Some (Count 7))
   \<and> (0 \<le> n \<longrightarrow>
        map_option fst (snd (DidCountTendChange_part001 row now n)) = Some (Count n)
        \<and> fst (DidCountTendChange_part001 row now n) = (map_option fst row \<noteq> Some (Count n)))
   \<and> DidCountTendChange_part001 None now 5 = (True, Some (Count 5, now))
   \<and> DidCountTendChange_part001 (Some (Count 5, now)) now' 5 = (False, Some (Count 5, now))
   \<and> DidCountTendChange_part001 (Some (Count 5, now)) now'' 7 = (True, Some (Count 7, now''))"
  by (auto simp: DidCountTendChange_def DidCountTendChange_part001_def setAppStateInt_def
      split: option.splits Stored.splits)

text \<open>The theorem of C9 at the count 3, with a persisted value that is no number.\<close>

theorem DidCountTendChange_last_observed_witness:
  "(0::int) \<le> 3
   \<and> snd (DidCountTendChange True (Some Garbled) 3) = Some (Count 3)
   \<and> map_option fst (snd (DidCountTendChange_part001 (Some (Garbled, tickA)) tickB 3))
       = Some (Count 3)
   \<and> fst (DidCountTendChange_part001 (Some (Garbled, tickA)) tickB 3)"
  using DidCountTendChange_last_observed [of "Some Garbled" 3 "Some (Garbled, tickA)" tickB]
  by simp

section \<open>The paginated listing\<close>

lemma set_page: "set (page limit offset xs) \<subseteq> set xs"
  unfolding page_def
  by (meson set_take_subset set_drop_subset subset_trans)

text \<open>
  Claim C10. Whatever the store, the limit and the offset, no thought in a page returned
  by \<^verbatim>\<open>ListThoughtsByPagination\<close> of store.go is archived. The listing of part 001 is a
  different function: on a store whose only thought is archived it returns that thought,
  where the listing of store.go returns the empty page.
\<close>

theorem ListThoughtsByPagination_excludes_archived:
  "(\<forall>s limit offset ts.
      ListThoughtsByPagination s limit offset = Inr ts \<longrightarrow>
        (\<forall>t\<in>set ts. CurrentState t \<noteq> StateArchived))
   \<and> ListThoughtsByPagination (exStore StateArchived tickA) 10 0 = Inr []
   \<and> ListThoughtsByPagination_part001 (exStore StateArchived tickA) 10 0
       = Inr [listRow (exThought StateArchived tickA)]"
proof (intro conjI allI impI ballI)
  fix s limit offset ts t
  assume r: "ListThoughtsByPagination s limit offset = Inr ts" and t: "t \<in> set ts"
  from r have ts: "ts = map listRow
             (page limit offset
                (sort_key (\<lambda>t. (Format (UpdatedAt t), ID t))
                   (filter (\<lambda>t. CurrentState t \<noteq> ''archived'') (thoughts s))))"
    by (auto simp: ListThoughtsByPagination_def split: if_splits)
  from t obtain u where u: "t = listRow u"
    and "u \<in> set (page limit offset
                (sort_key (\<lambda>t. (Format (UpdatedAt t), ID t))
                   (filter (\<lambda>t. CurrentState t \<noteq> ''archived'') (thoughts s))))"
    unfolding ts by auto
  then have "u \<in> set (filter (\<lambda>t. CurrentState t \<noteq> ''archived'') (thoughts s))"
    using set_page by fastforce
  then have "CurrentState u \<noteq> ''archived''" by simp
  then show "CurrentState t \<noteq> StateArchived"
    by (simp add: u listRow_def StateArchived_def)
next
  show "ListThoughtsByPagination (exStore StateArchived tickA) 10 0 = Inr []"
    by (simp add: ListThoughtsByPagination_def exStore_def exThought_def StateArchived_def
          page_def)
next
  show "ListThoughtsByPagination_part001 (exStore StateArchived tickA) 10 0
       = Inr [listRow (exThought StateArchived tickA)]"
    by (simp add: ListThoughtsByPagination_part001_def exStore_def page_def)
qed

text \<open>The theorem of C10 on a store with an archived and a captured thought: the page
  holds the captured one only.\<close>

theorem ListThoughtsByPagination_excludes_archived_witness:
  "ListThoughtsByPagination exStoreMixed 10 0
     = Inr [listRow ((exThought StateCaptured tickA)\<lparr>ID := 2\<rparr>)]
   \<and> list_all (\<lambda>t. CurrentState t \<noteq> StateArchived)
       [listRow ((exThought StateCaptured tickA)\<lparr>ID := 2\<rparr>)]"
proof -
  have ev: "ListThoughtsByPagination exStoreMixed 10 0
     = Inr [listRow ((exThought StateCaptured tickA)\<lparr>ID := 2\<rparr>)]"
    by (simp add: ListThoughtsByPagination_def exStoreMixed_def exThought_def page_def
          StateArchived_def StateCaptured_def)
  have "\<forall>t\<in>set [listRow ((exThought StateCaptured tickA)\<lparr>ID := 2\<rparr>)].
          CurrentState t \<noteq> StateArchived"
    using ListThoughtsByPagination_excludes_archived ev by blast
  then show ?thesis using ev by simp
qed

end
